theory Spec2Isabelle
  imports Main "HOL-Library.Word" "HOL-Library.Sublist"
begin

section \<open>JavaScript values used by the application\<close>

text \<open>
  A JavaScript string is a sequence of 16-bit code units. \<open>lit\<close> embeds the ASCII text of a
  string literal of the source.
\<close>

type_synonym jsstring = "16 word list"

definition lit :: "string \<Rightarrow> jsstring" where
  "lit s = map (\<lambda>c. of_nat (of_char c)) s"

text \<open>
  \<^verbatim>\<open>String.prototype.trim\<close> strips the code units of the ECMAScript productions WhiteSpace
  and LineTerminator from both ends.
\<close>

definition isWhiteSpace :: "16 word \<Rightarrow> bool" where
  "isWhiteSpace c \<longleftrightarrow>
     c \<in> {0x9, 0xA, 0xB, 0xC, 0xD, 0x20, 0xA0, 0x1680, 0x2028, 0x2029, 0x202F, 0x205F,
          0x3000, 0xFEFF}
     \<or> (0x2000 \<le> c \<and> c \<le> 0x200A)"

definition trim :: "jsstring \<Rightarrow> jsstring" where
  "trim s = rev (dropWhile isWhiteSpace (rev (dropWhile isWhiteSpace s)))"

text \<open>
  A number inside a template literal (\<^verbatim>\<open>`${id}`\<close>) is written in decimal. Ids are integers
  (the \<^verbatim>\<open>number\<close> of the \<^verbatim>\<open>Hero\<close> interface, assigned by the server).
\<close>

fun digits :: "nat \<Rightarrow> jsstring" where
  "digits n = (if n < 10 then [of_nat (48 + n)] else digits (n div 10) @ [of_nat (48 + n mod 10)])"

declare digits.simps [simp del]

definition numberToString :: "int \<Rightarrow> jsstring" where
  "numberToString i = (if i < 0 then lit ''-'' @ digits (nat (- i)) else digits (nat i))"

text \<open>
  Modelled from the spec: the \<^verbatim>\<open>Hero\<close> interface (hero.ts is not among the sources), "a
  plain data shape \<^verbatim>\<open>{ id: integer, name: string }\<close>". Objects are compared by reference
  (\<^verbatim>\<open>!==\<close>), so every object carries its identity \<open>addr\<close>: two objects with the same fields
  and different identities are different objects. The code under study never mutates a hero
  object, so no store is needed beyond this tag.
\<close>

record Hero =
  addr :: nat
  hero_id :: int
  name :: jsstring

text \<open>
  A slot typed \<^verbatim>\<open>Hero\<close> holds an object or, through the \<^verbatim>\<open>result as T\<close> cast of
  \<^verbatim>\<open>handleError\<close>, \<^verbatim>\<open>undefined\<close>.
\<close>

datatype val = Undefined | Object Hero

text \<open>A thrown value or a transport failure; the code reads only \<^verbatim>\<open>error.message\<close>.\<close>

record js_error =
  message :: jsstring

text \<open>
  Reading a property of \<^verbatim>\<open>undefined\<close> throws a TypeError. The wording of its message is the
  engine's.
\<close>

definition TypeError :: js_error where
  "TypeError = \<lparr>message = lit ''Cannot read properties of undefined''\<rparr>"

section \<open>The HTTP transport\<close>

text \<open>
  A request body is the JSON of the object passed: \<^verbatim>\<open>{ name } as Hero\<close> has the single field
  \<^verbatim>\<open>name\<close>; a whole hero has \<^verbatim>\<open>id\<close> and \<^verbatim>\<open>name\<close>.
\<close>

datatype payload = NameOnly jsstring | WholeHero int jsstring

type_synonym headers = "(jsstring \<times> jsstring) list"

datatype request =
    GET jsstring
  | POST jsstring payload headers
  | PUT jsstring payload headers
  | DELETE jsstring headers

section \<open>Application state\<close>

text \<open>
  One record holds what the services and components keep and what they do to the outside:
  \<^item> \<open>messages\<close>: the array of the message collector;
  \<^item> \<open>console\<close>: the arguments of \<^verbatim>\<open>console.error\<close>, in order;
  \<^item> \<open>requests\<close>: the HTTP requests sent, in order;
  \<^item> \<open>uncaught\<close>: errors that reach no handler (an error notification with no error callback,
    an exception leaving an event handler);
  \<^item> \<open>heroes\<close>: \<^verbatim>\<open>HeroesComponent.heroes\<close>;
  \<^item> \<open>hero\<close>: \<^verbatim>\<open>HeroDetailComponent.hero\<close>;
  \<^item> \<open>backs\<close>: the number of calls of \<^verbatim>\<open>Location.back()\<close>;
  \<^item> the fields of the search pipeline, described with it below.
\<close>

record app =
  messages :: "jsstring list"
  console :: "js_error list"
  requests :: "request list"
  uncaught :: "js_error list"
  heroes :: "val list"
  hero :: val
  backs :: nat
  timer :: "(nat \<times> jsstring) option"
  prev :: "jsstring option"
  active :: "(nat \<times> jsstring) option"
  debounced :: "jsstring list"
  queries :: "jsstring list"
  emitted :: "val list list"

section \<open>Single-shot observables\<close>

text \<open>
  Every observable of the data-access service delivers at most one notification: a value
  (\<open>Next\<close>, followed by completion) or an error. It is cold: nothing happens before
  \<^verbatim>\<open>subscribe\<close>. An observable is either synchronous (\<^verbatim>\<open>of(v)\<close> notifies during
  \<^verbatim>\<open>subscribe\<close>) or an HTTP call: \<^verbatim>\<open>subscribe\<close> sends the request, and when the transport
  answers, the answer runs through the operators of \<^verbatim>\<open>pipe\<close> in the state of that moment.
\<close>

datatype 'a notification = Next 'a | Error js_error

type_synonym 'a sync = "app \<Rightarrow> 'a notification \<times> app"

datatype ('r, 'a) observable =
    Sync "'a sync"
  | Async request "'r notification \<Rightarrow> 'a sync"

definition of_rx :: "'a \<Rightarrow> 'a sync" where
  "of_rx v st = (Next v, st)"

text \<open>
  \<^verbatim>\<open>tap(f)\<close> runs \<open>f\<close> on a value and passes the value on; an exception thrown by \<open>f\<close>
  becomes an error notification. \<^verbatim>\<open>map(f)\<close> applies \<open>f\<close> to a value. \<^verbatim>\<open>catchError(h)\<close>
  replaces an error notification by the observable that \<open>h\<close> returns.
\<close>

definition tap :: "('a \<Rightarrow> app \<Rightarrow> js_error + app) \<Rightarrow> 'a notification \<Rightarrow> 'a sync" where
  "tap f n st =
     (case n of
        Next v \<Rightarrow> (case f v st of Inl e \<Rightarrow> (Error e, st) | Inr st' \<Rightarrow> (Next v, st'))
      | Error e \<Rightarrow> (Error e, st))"

definition map_rx :: "('a \<Rightarrow> 'b) \<Rightarrow> 'a notification \<Rightarrow> 'b sync" where
  "map_rx f n st = (case n of Next v \<Rightarrow> (Next (f v), st) | Error e \<Rightarrow> (Error e, st))"

definition catchError :: "(js_error \<Rightarrow> app \<Rightarrow> 'a sync \<times> app) \<Rightarrow> 'a notification \<Rightarrow> 'a sync" where
  "catchError h n st =
     (case n of
        Next v \<Rightarrow> (Next v, st)
      | Error e \<Rightarrow> (case h e st of (obs, st') \<Rightarrow> obs st'))"

definition pipe :: "('r, 'a) observable \<Rightarrow> ('a notification \<Rightarrow> 'b sync) \<Rightarrow> ('r, 'b) observable" where
  "pipe obs operator =
     (case obs of
        Sync f \<Rightarrow> Sync (\<lambda>st. case f st of (n, st') \<Rightarrow> operator n st')
      | Async rq k \<Rightarrow> Async rq (\<lambda>r st. case k r st of (n, st') \<Rightarrow> operator n st'))"

text \<open>The methods of \<^verbatim>\<open>HttpClient\<close>: the request, and the transport's answer passed on as it is.\<close>

definition http_get :: "jsstring \<Rightarrow> ('r, 'r) observable" where
  "http_get url = Async (GET url) (\<lambda>r st. (r, st))"

definition http_post :: "jsstring \<Rightarrow> payload \<Rightarrow> headers \<Rightarrow> ('r, 'r) observable" where
  "http_post url body hs = Async (POST url body hs) (\<lambda>r st. (r, st))"

definition http_put :: "jsstring \<Rightarrow> payload \<Rightarrow> headers \<Rightarrow> ('r, 'r) observable" where
  "http_put url body hs = Async (PUT url body hs) (\<lambda>r st. (r, st))"

definition http_delete :: "jsstring \<Rightarrow> headers \<Rightarrow> ('r, 'r) observable" where
  "http_delete url hs = Async (DELETE url hs) (\<lambda>r st. (r, st))"

section \<open>The message collector\<close>

text \<open>
  Modelled from the spec: \<^verbatim>\<open>MessageService.add\<close> (message.service.ts is not among the
  sources). The collector is "an append-only in-memory log of strings" with an
  \<^verbatim>\<open>add(message)\<close> operation: \<open>add\<close> appends its argument at the end.
\<close>

definition MessageService_add :: "jsstring \<Rightarrow> app \<Rightarrow> app" where
  "MessageService_add msg st = st\<lparr>messages := messages st @ [msg]\<rparr>"

section \<open>HeroService\<close>

definition heroesUrl :: jsstring where
  "heroesUrl = lit ''api/heroes''"

definition httpOptions :: headers where
  "httpOptions = [(lit ''Content-Type'', lit ''application/json'')]"

definition log :: "jsstring \<Rightarrow> app \<Rightarrow> app" where
  "log msg = MessageService_add (lit ''HeroService: '' @ msg)"

text \<open>
  \<^verbatim>\<open>handleError(operation, result)\<close> returns the handler; the handler writes the error to
  the console, logs, and returns \<^verbatim>\<open>of(result as T)\<close>. A call without \<open>result\<close> passes
  \<open>Undefined\<close>.
\<close>

definition handleError :: "jsstring \<Rightarrow> 'a \<Rightarrow> js_error \<Rightarrow> app \<Rightarrow> 'a sync \<times> app" where
  "handleError operation result error st =
     (of_rx result,
      log (operation @ lit '' failed: '' @ message error) (st\<lparr>console := console st @ [error]\<rparr>))"

definition getHeroes :: "(val list, val list) observable" where
  "getHeroes =
     pipe (pipe (http_get heroesUrl)
       (tap (\<lambda>_ st. Inr (log (lit ''fetched heroes'') st))))
       (catchError (handleError (lit ''getHeroes'') []))"

text \<open>\<^verbatim>\<open>heroes[0]\<close> is \<^verbatim>\<open>undefined\<close> on an empty array.\<close>

definition getHeroNo404 :: "int \<Rightarrow> (val list, val) observable" where
  "getHeroNo404 i =
     pipe (pipe (pipe (http_get (heroesUrl @ lit ''/?id='' @ numberToString i))
       (map_rx (\<lambda>hs. case hs of [] \<Rightarrow> Undefined | h # _ \<Rightarrow> h)))
       (tap (\<lambda>h st. Inr (log ((case h of Undefined \<Rightarrow> lit ''did not find'' | Object _ \<Rightarrow> lit ''fetched'')
                                 @ lit '' hero id='' @ numberToString i) st))))
       (catchError (handleError (lit ''getHero id='' @ numberToString i) Undefined))"

definition getHero :: "int \<Rightarrow> (val, val) observable" where
  "getHero i =
     pipe (pipe (http_get (heroesUrl @ lit ''/'' @ numberToString i))
       (tap (\<lambda>_ st. Inr (log (lit ''fetched hero id='' @ numberToString i) st))))
       (catchError (handleError (lit ''getHero id='' @ numberToString i) Undefined))"

text \<open>\<^verbatim>\<open>!term.trim()\<close> holds exactly for the empty string.\<close>

definition searchHeroes :: "jsstring \<Rightarrow> (val list, val list) observable" where
  "searchHeroes term =
     (if trim term = [] then Sync (of_rx [])
      else
        pipe (pipe (http_get (heroesUrl @ lit ''/?name='' @ term))
          (tap (\<lambda>x st. Inr (if length x \<noteq> 0
                              then log (lit ''found heroes matching \"'' @ term @ lit ''\"'') st
                              else log (lit ''no heroes matching \"'' @ term @ lit ''\"'') st))))
          (catchError (handleError (lit ''searchHeroes'') [])))"

text \<open>\<^verbatim>\<open>newHero.id\<close> throws when the body is not an object.\<close>

definition addHero :: "payload \<Rightarrow> (val, val) observable" where
  "addHero body =
     pipe (pipe (http_post heroesUrl body httpOptions)
       (tap (\<lambda>newHero st.
               case newHero of
                 Undefined \<Rightarrow> Inl TypeError
               | Object h \<Rightarrow> Inr (log (lit ''added hero w/ id='' @ numberToString (hero_id h)) st))))
       (catchError (handleError (lit ''addHero'') Undefined))"

definition deleteHero :: "int \<Rightarrow> (val, val) observable" where
  "deleteHero i =
     pipe (pipe (http_delete (heroesUrl @ lit ''/'' @ numberToString i) httpOptions)
       (tap (\<lambda>_ st. Inr (log (lit ''deleted hero id='' @ numberToString i) st))))
       (catchError (handleError (lit ''deleteHero'') Undefined))"

definition updateHero :: "Hero \<Rightarrow> (val, val) observable" where
  "updateHero h =
     pipe (pipe (http_put heroesUrl (WholeHero (hero_id h) (name h)) httpOptions)
       (tap (\<lambda>_ st. Inr (log (lit ''updated hero id='' @ numberToString (hero_id h)) st))))
       (catchError (handleError (lit ''updateHero'') Undefined))"

section \<open>Subscribing\<close>

text \<open>
  \<^verbatim>\<open>obs.subscribe(observer)\<close> with a callback for values only. A synchronous observable is
  done when \<^verbatim>\<open>subscribe\<close> returns (\<open>Finished\<close>). An HTTP observable has sent its request
  (\<open>Awaiting\<close>, with the state at the return of the call) and keeps a continuation: what
  happens, in whatever state the application is by then, when the transport answers.
\<close>

datatype 'r task = Finished app | Awaiting app "'r notification \<Rightarrow> app \<Rightarrow> app"

definition deliver :: "('a \<Rightarrow> app \<Rightarrow> app) \<Rightarrow> 'a notification \<times> app \<Rightarrow> app" where
  "deliver observer p =
     (case p of
        (Next v, st) \<Rightarrow> observer v st
      | (Error e, st) \<Rightarrow> st\<lparr>uncaught := uncaught st @ [e]\<rparr>)"

definition subscribe :: "('r, 'a) observable \<Rightarrow> ('a \<Rightarrow> app \<Rightarrow> app) \<Rightarrow> app \<Rightarrow> 'r task" where
  "subscribe obs observer st =
     (case obs of
        Sync f \<Rightarrow> Finished (deliver observer (f st))
      | Async rq k \<Rightarrow>
          Awaiting (st\<lparr>requests := requests st @ [rq]\<rparr>) (\<lambda>r st'. deliver observer (k r st')))"

text \<open>The state when the call returns, and the state after the transport has answered.\<close>

fun returned :: "'r task \<Rightarrow> app" where
  "returned (Finished st) = st"
| "returned (Awaiting st k) = st"

fun settled :: "'r task \<Rightarrow> 'r notification \<Rightarrow> app \<Rightarrow> app" where
  "settled (Finished _) r st = st"
| "settled (Awaiting _ k) r st = k r st"

section \<open>HeroesComponent\<close>

definition HeroesComponent_getHeroes :: "app \<Rightarrow> val list task" where
  "HeroesComponent_getHeroes st = subscribe getHeroes (\<lambda>hs st'. st'\<lparr>heroes := hs\<rparr>) st"

definition HeroesComponent_add :: "jsstring \<Rightarrow> app \<Rightarrow> val task" where
  "HeroesComponent_add name0 st =
     (let name1 = trim name0 in
      if name1 = [] then Finished st
      else subscribe (addHero (NameOnly name1)) (\<lambda>h st'. st'\<lparr>heroes := heroes st' @ [h]\<rparr>) st)"

text \<open>
  The filter runs first; \<^verbatim>\<open>hero.id\<close> then throws out of the handler when \<open>hero\<close> is
  \<^verbatim>\<open>undefined\<close>.
\<close>

definition HeroesComponent_delete :: "val \<Rightarrow> app \<Rightarrow> val task" where
  "HeroesComponent_delete h st =
     (let st1 = st\<lparr>heroes := filter (\<lambda>x. x \<noteq> h) (heroes st)\<rparr> in
      case h of
        Undefined \<Rightarrow> Finished (st1\<lparr>uncaught := uncaught st1 @ [TypeError]\<rparr>)
      | Object o1 \<Rightarrow> subscribe (deleteHero (hero_id o1)) (\<lambda>_ st'. st') st1)"

section \<open>HeroDetailComponent\<close>

definition goBack :: "app \<Rightarrow> app" where
  "goBack st = st\<lparr>backs := Suc (backs st)\<rparr>"

definition save :: "app \<Rightarrow> val task" where
  "save st =
     (case hero st of
        Undefined \<Rightarrow> Finished st
      | Object h \<Rightarrow> subscribe (updateHero h) (\<lambda>_. goBack) st)"

section \<open>HeroSearchComponent\<close>

text \<open>
  \<^verbatim>\<open>ngOnInit\<close> builds \<^verbatim>\<open>heroes$\<close> from the subject \<^verbatim>\<open>searchTerms\<close> with
  \<^verbatim>\<open>debounceTime(300)\<close>, \<^verbatim>\<open>distinctUntilChanged()\<close> and \<^verbatim>\<open>switchMap\<close>. The pipeline is
  driven by events stamped with the time in milliseconds at which the event loop runs them:
  a call of \<^verbatim>\<open>search(term)\<close>, and the transport's answer to a request. The event loop is
  idle between events, so the callback of the debounce timer runs at the millisecond the
  timer is due. Its state:
  \<^item> \<open>timer\<close>: the value \<^verbatim>\<open>debounceTime\<close> holds back, with the time at which it is due;
  \<^item> \<open>prev\<close>: the last value \<^verbatim>\<open>distinctUntilChanged\<close> let through;
  \<^item> \<open>active\<close>: the inner subscription of \<^verbatim>\<open>switchMap\<close>, as the number of its request
    (its position in \<open>requests\<close>) and its term;
  \<^item> \<open>debounced\<close>: the values that left \<^verbatim>\<open>debounceTime\<close>, in order;
  \<^item> \<open>queries\<close>: the terms \<^verbatim>\<open>searchHeroes\<close> was called with, in order;
  \<^item> \<open>emitted\<close>: the values \<^verbatim>\<open>heroes$\<close> emitted, in order.
\<close>

definition dueTime :: nat where
  "dueTime = 300"

text \<open>
  \<^verbatim>\<open>switchMap\<close>: a new outer value unsubscribes the inner observable, calls the project
  function and subscribes to its result.
\<close>

definition switchMap_next :: "jsstring \<Rightarrow> app \<Rightarrow> app" where
  "switchMap_next term st =
     (let st1 = st\<lparr>active := None, queries := queries st @ [term]\<rparr> in
      case searchHeroes term of
        Sync f \<Rightarrow> deliver (\<lambda>v st'. st'\<lparr>emitted := emitted st' @ [v]\<rparr>) (f st1)
      | Async rq k \<Rightarrow>
          st1\<lparr>requests := requests st1 @ [rq], active := Some (length (requests st1), term)\<rparr>)"

text \<open>\<^verbatim>\<open>distinctUntilChanged\<close>: a value equal (\<^verbatim>\<open>===\<close>) to the previous one is dropped.\<close>

definition distinctUntilChanged_next :: "jsstring \<Rightarrow> app \<Rightarrow> app" where
  "distinctUntilChanged_next x st =
     (if prev st = Some x then st else switchMap_next x (st\<lparr>prev := Some x\<rparr>))"

text \<open>
  The timer of \<^verbatim>\<open>debounceTime\<close>. Every event first lets the timer run up to its own time:
  a value that was due before \<open>now\<close> has been passed on. When the timer is due at the very
  millisecond of the event, nothing in the code fixes which of the two the event loop runs
  first: \<open>timer_first\<close> is that order. With the timer first the value is passed on; with the
  event first the timer is still pending when the handler of the event runs (a keystroke
  then replaces the value held, which is never emitted).
\<close>

definition advance :: "bool \<Rightarrow> nat \<Rightarrow> app \<Rightarrow> app" where
  "advance timer_first now st =
     (case timer st of
        None \<Rightarrow> st
      | Some (due, x) \<Rightarrow>
          if due < now \<or> (timer_first \<and> due = now)
          then distinctUntilChanged_next x (st\<lparr>timer := None, debounced := debounced st @ [x]\<rparr>)
          else st)"

text \<open>
  \<^verbatim>\<open>search(term)\<close> at time \<open>t\<close>: \<^verbatim>\<open>searchTerms.next(term)\<close> reaches \<^verbatim>\<open>debounceTime\<close>,
  which drops the value it holds and holds \<open>term\<close> for 300ms.
\<close>

definition search :: "bool \<Rightarrow> nat \<Rightarrow> jsstring \<Rightarrow> app \<Rightarrow> app" where
  "search timer_first t term st = (advance timer_first t st)\<lparr>timer := Some (t + dueTime, term)\<rparr>"

text \<open>
  The transport answers request number \<open>i\<close> at time \<open>t\<close>. The answer is consumed only by
  the inner subscription that sent the request, if \<^verbatim>\<open>switchMap\<close> still holds it; it runs
  through the operators of \<^verbatim>\<open>searchHeroes\<close> and is emitted by \<^verbatim>\<open>heroes$\<close>.
\<close>

definition response :: "bool \<Rightarrow> nat \<Rightarrow> nat \<Rightarrow> val list notification \<Rightarrow> app \<Rightarrow> app" where
  "response timer_first t i r st =
     (let st1 = advance timer_first t st in
      case active st1 of
        None \<Rightarrow> st1
      | Some (j, term) \<Rightarrow>
          if i \<noteq> j then st1
          else (case searchHeroes term of
                  Sync f \<Rightarrow> st1
                | Async rq k \<Rightarrow>
                    deliver (\<lambda>v st'. st'\<lparr>emitted := emitted st' @ [v]\<rparr>)
                      (k r (st1\<lparr>active := None\<rparr>))))"

text \<open>An event carries the order of a timer due at its millisecond, its time and its data.\<close>

datatype event =
    Keystroke bool nat jsstring
  | Response bool nat nat "val list notification"

fun step :: "event \<Rightarrow> app \<Rightarrow> app" where
  "step (Keystroke timer_first t term) st = search timer_first t term st"
| "step (Response timer_first t i r) st = response timer_first t i r st"

definition run :: "event list \<Rightarrow> app \<Rightarrow> app" where
  "run es st = fold step es st"

text \<open>
  The typing of a sequence of terms, each with the time of its keystroke; \<open>order t\<close> is the
  order of timer and keystroke at the millisecond \<open>t\<close>.
\<close>

definition typing :: "(nat \<Rightarrow> bool) \<Rightarrow> (nat \<times> jsstring) list \<Rightarrow> app \<Rightarrow> app" where
  "typing order ps st = run (map (\<lambda>(t, term). Keystroke (order t) t term) ps) st"

text \<open>
  A burst: keystrokes in the order of time, each less than 300ms after the one before.
  Bursts are separated when the first keystroke of each comes more than 300ms after the last
  keystroke of the burst before. A gap of exactly 300ms is neither: there the timer and the
  keystroke meet, and what happens depends on their order.
\<close>

fun burst :: "(nat \<times> jsstring) list \<Rightarrow> bool" where
  "burst [] = False"
| "burst [p] = True"
| "burst (p # q # ps) = (fst p \<le> fst q \<and> fst q < fst p + dueTime \<and> burst (q # ps))"

fun separated :: "(nat \<times> jsstring) list list \<Rightarrow> bool" where
  "separated (b # c # bs) = (fst (last b) + dueTime < fst (hd c) \<and> separated (c # bs))"
| "separated bs = True"

section \<open>The application at its start\<close>

text \<open>
  \<^verbatim>\<open>heroes: Hero[] = []\<close>, \<^verbatim>\<open>hero: Hero | undefined\<close>, an empty message collector, nothing sent
  and a fresh search pipeline.
\<close>

definition initial :: app where
  "initial = \<lparr>messages = [], console = [], requests = [], uncaught = [], heroes = [],
     hero = Undefined, backs = 0, timer = None, prev = None, active = None, debounced = [],
     queries = [], emitted = []\<rparr>"

section \<open>Observing an observable\<close>

text \<open>
  What an observable notifies to its subscriber, and the state it leaves: a synchronous
  observable during \<^verbatim>\<open>subscribe\<close>, an HTTP observable when the transport answers \<open>r\<close>.
\<close>

fun outcome :: "('r, 'a) observable \<Rightarrow> 'r notification \<Rightarrow> 'a sync" where
  "outcome (Sync f) r st = f st"
| "outcome (Async rq k) r st = k r st"

text \<open>
  Between two states the message collector has only grown, and every message added starts
  with the tag of the data-access service.
\<close>

definition tagged_since :: "app \<Rightarrow> app \<Rightarrow> bool" where
  "tagged_since st st' \<longleftrightarrow>
     prefix (messages st) (messages st')
     \<and> list_all (prefix (lit ''HeroService: '')) (drop (length (messages st)) (messages st'))"

section \<open>Auxiliary facts\<close>

subsection \<open>Trimming\<close>

lemma trim_Nil_iff: "trim s = [] \<longleftrightarrow> (\<forall>c\<in>set s. isWhiteSpace c)"
proof
  assume "trim s = []"
  then have *: "\<forall>c\<in>set (dropWhile isWhiteSpace s). isWhiteSpace c"
    by (simp add: trim_def dropWhile_eq_Nil_conv)
  have "dropWhile isWhiteSpace s = []"
  proof (rule ccontr)
    assume ne: "dropWhile isWhiteSpace s \<noteq> []"
    then have "\<not> isWhiteSpace (hd (dropWhile isWhiteSpace s))"
      by (rule hd_dropWhile)
    moreover have "hd (dropWhile isWhiteSpace s) \<in> set (dropWhile isWhiteSpace s)"
      using ne by simp
    ultimately show False using * by blast
  qed
  then show "\<forall>c\<in>set s. isWhiteSpace c"
    by (simp add: dropWhile_eq_Nil_conv)
next
  assume "\<forall>c\<in>set s. isWhiteSpace c"
  then have "dropWhile isWhiteSpace s = []"
    by (simp add: dropWhile_eq_Nil_conv)
  then have "trim s = rev (dropWhile isWhiteSpace (rev []))"
    by (simp only: trim_def)
  then show "trim s = []"
    by simp
qed

subsection \<open>The operations of the data-access service, operator by operator\<close>

lemmas rx_defs = pipe_def tap_def map_rx_def catchError_def handleError_def of_rx_def
  http_get_def http_post_def http_put_def http_delete_def

lemmas sub_defs = subscribe_def deliver_def

lemmas eval_defs = lit_def isWhiteSpace_def initial_def dueTime_def

lemma getHeroes_Async:
  "getHeroes = Async (GET heroesUrl)
     (\<lambda>r st. case r of
        Next hs \<Rightarrow> (Next hs, log (lit ''fetched heroes'') st)
      | Error e \<Rightarrow> (Next [], log (lit ''getHeroes failed: '' @ message e)
                               (st\<lparr>console := console st @ [e]\<rparr>)))"
  by (simp add: getHeroes_def rx_defs lit_def fun_eq_iff split: notification.split)

lemma getHeroNo404_Async:
  "getHeroNo404 i = Async (GET (heroesUrl @ lit ''/?id='' @ numberToString i))
     (\<lambda>r st. case r of
        Next [] \<Rightarrow> (Next Undefined, log (lit ''did not find hero id='' @ numberToString i) st)
      | Next (Undefined # _) \<Rightarrow> (Next Undefined, log (lit ''did not find hero id='' @ numberToString i) st)
      | Next (Object h # _) \<Rightarrow> (Next (Object h), log (lit ''fetched hero id='' @ numberToString i) st)
      | Error e \<Rightarrow> (Next Undefined, log (lit ''getHero id='' @ numberToString i @ lit '' failed: '' @ message e)
                               (st\<lparr>console := console st @ [e]\<rparr>)))"
  by (simp add: getHeroNo404_def rx_defs lit_def fun_eq_iff split: notification.split list.split val.split)

lemma getHero_Async:
  "getHero i = Async (GET (heroesUrl @ lit ''/'' @ numberToString i))
     (\<lambda>r st. case r of
        Next v \<Rightarrow> (Next v, log (lit ''fetched hero id='' @ numberToString i) st)
      | Error e \<Rightarrow> (Next Undefined, log (lit ''getHero id='' @ numberToString i @ lit '' failed: '' @ message e)
                               (st\<lparr>console := console st @ [e]\<rparr>)))"
  by (simp add: getHero_def rx_defs lit_def fun_eq_iff split: notification.split)

lemma searchHeroes_blank: "trim term = [] \<Longrightarrow> searchHeroes term = Sync (\<lambda>st. (Next [], st))"
  by (simp add: searchHeroes_def rx_defs lit_def fun_eq_iff)

lemma searchHeroes_Async:
  "trim term \<noteq> [] \<Longrightarrow> searchHeroes term = Async (GET (heroesUrl @ lit ''/?name='' @ term))
     (\<lambda>r st. case r of
        Next hs \<Rightarrow> (Next hs, log (lit (if hs \<noteq> [] then ''found heroes matching \"'' else ''no heroes matching \"'')
                                 @ term @ lit ''\"'') st)
      | Error e \<Rightarrow> (Next [], log (lit ''searchHeroes failed: '' @ message e)
                               (st\<lparr>console := console st @ [e]\<rparr>)))"
  by (simp add: searchHeroes_def rx_defs lit_def fun_eq_iff split: notification.split)

lemma addHero_Async:
  "addHero body = Async (POST heroesUrl body httpOptions)
     (\<lambda>r st. case r of
        Next (Object h) \<Rightarrow> (Next (Object h), log (lit ''added hero w/ id='' @ numberToString (hero_id h)) st)
      | Next Undefined \<Rightarrow> (Next Undefined, log (lit ''addHero failed: '' @ message TypeError)
                               (st\<lparr>console := console st @ [TypeError]\<rparr>))
      | Error e \<Rightarrow> (Next Undefined, log (lit ''addHero failed: '' @ message e)
                               (st\<lparr>console := console st @ [e]\<rparr>)))"
  by (simp add: addHero_def rx_defs lit_def fun_eq_iff split: notification.split val.split)

lemma deleteHero_Async:
  "deleteHero i = Async (DELETE (heroesUrl @ lit ''/'' @ numberToString i) httpOptions)
     (\<lambda>r st. case r of
        Next v \<Rightarrow> (Next v, log (lit ''deleted hero id='' @ numberToString i) st)
      | Error e \<Rightarrow> (Next Undefined, log (lit ''deleteHero failed: '' @ message e)
                               (st\<lparr>console := console st @ [e]\<rparr>)))"
  by (simp add: deleteHero_def rx_defs lit_def fun_eq_iff split: notification.split)

lemma updateHero_Async:
  "updateHero h = Async (PUT heroesUrl (WholeHero (hero_id h) (name h)) httpOptions)
     (\<lambda>r st. case r of
        Next v \<Rightarrow> (Next v, log (lit ''updated hero id='' @ numberToString (hero_id h)) st)
      | Error e \<Rightarrow> (Next Undefined, log (lit ''updateHero failed: '' @ message e)
                               (st\<lparr>console := console st @ [e]\<rparr>)))"
  by (simp add: updateHero_def rx_defs lit_def fun_eq_iff split: notification.split)

lemma messages_log: "messages (log m st) = messages st @ [lit ''HeroService: '' @ m]"
  by (simp add: log_def MessageService_add_def)

lemma length_messages_log: "length (messages (log m st)) = Suc (length (messages st))"
  by (simp add: log_def MessageService_add_def)

lemma tagged_since_refl: "tagged_since st st"
  by (simp add: tagged_since_def)

lemma tagged_since_log: "messages st1 = messages st \<Longrightarrow> tagged_since st (log m st1)"
  by (simp add: tagged_since_def log_def MessageService_add_def)

lemma searchHeroes_tagged: "tagged_since st (snd (outcome (searchHeroes term) rl st))"
proof (cases "trim term = []")
  case True
  then show ?thesis
    by (simp add: searchHeroes_blank tagged_since_refl)
next
  case False
  then show ?thesis
    by (simp add: searchHeroes_Async tagged_since_log split: notification.split)
qed

subsection \<open>The list view\<close>

lemma length_filter_neq: "length (filter (\<lambda>x. x \<noteq> a) xs) + count_list xs a = length xs"
  by (induction xs) auto

lemma count_list_filter_neq: "x \<noteq> a \<Longrightarrow> count_list (filter (\<lambda>y. y \<noteq> a) xs) x = count_list xs x"
  by (induction xs) auto

lemma heroes_delete:
  "heroes (returned (HeroesComponent_delete (Object r) st)) = filter (\<lambda>x. x \<noteq> Object r) (heroes st)"
  by (simp add: HeroesComponent_delete_def deleteHero_Async sub_defs Let_def)

subsection \<open>The stages of the search pipeline\<close>

lemma switchMap_next_fields:
  "timer (switchMap_next x st) = timer st"
  "prev (switchMap_next x st) = prev st"
  "debounced (switchMap_next x st) = debounced st"
  "queries (switchMap_next x st) = queries st @ [x]"
  by (cases "trim x = []";
      simp add: switchMap_next_def searchHeroes_blank searchHeroes_Async deliver_def Let_def)+

lemma switchMap_next_query:
  "trim x \<noteq> [] \<Longrightarrow>
   switchMap_next x st =
     st\<lparr>active := Some (length (requests st), x), queries := queries st @ [x],
        requests := requests st @ [GET (heroesUrl @ lit ''/?name='' @ x)]\<rparr>"
  by (simp add: switchMap_next_def searchHeroes_Async Let_def)

lemma distinctUntilChanged_next_fields:
  "timer (distinctUntilChanged_next x st) = timer st"
  "prev (distinctUntilChanged_next x st) = Some x"
  "debounced (distinctUntilChanged_next x st) = debounced st"
  "queries (distinctUntilChanged_next x st) = queries st @ (if prev st = Some x then [] else [x])"
  by (simp_all add: distinctUntilChanged_next_def switchMap_next_fields)

lemma advance_idle: "timer st = None \<Longrightarrow> advance f now st = st"
  by (simp add: advance_def)

lemma advance_early: "timer st = Some (due, x) \<Longrightarrow> now < due \<Longrightarrow> advance f now st = st"
  by (simp add: advance_def)

lemma advance_due:
  "timer st = Some (due, x) \<Longrightarrow> due < now \<Longrightarrow>
   advance f now st = distinctUntilChanged_next x (st\<lparr>timer := None, debounced := debounced st @ [x]\<rparr>)"
  by (simp add: advance_def)

lemma search_idle: "timer st = None \<Longrightarrow> search f t x st = st\<lparr>timer := Some (t + dueTime, x)\<rparr>"
  by (simp add: search_def advance_idle)

lemma typing_Nil: "typing order [] st = st"
  by (simp add: typing_def run_def)

lemma typing_Cons: "typing order ((t, x) # ps) st = typing order ps (search (order t) t x st)"
  by (simp add: typing_def run_def)

lemma typing_append: "typing order (ps @ qs) st = typing order qs (typing order ps st)"
  by (simp add: typing_def run_def)

lemma typing_burst:
  "burst ((t, x) # ps) \<Longrightarrow>
   typing order ((t, x) # ps) st =
     (advance (order t) t st)\<lparr>timer := Some (fst (last ((t, x) # ps)) + dueTime, snd (last ((t, x) # ps)))\<rparr>"
proof (induction ps arbitrary: t x st)
  case Nil
  then show ?case
    by (simp add: typing_Cons typing_Nil search_def)
next
  case (Cons q ps)
  obtain t' x' where q: "q = (t', x')"
    by (cases q)
  from Cons.prems q have early: "t' < t + dueTime" and rest: "burst ((t', x') # ps)"
    by simp_all
  have "timer (search (order t) t x st) = Some (t + dueTime, x)"
    by (simp add: search_def)
  then have idle: "advance (order t') t' (search (order t) t x st) = search (order t) t x st"
    using early by (rule advance_early)
  have "typing order ((t, x) # q # ps) st = typing order ((t', x') # ps) (search (order t) t x st)"
    by (simp add: typing_Cons q)
  also have "\<dots> = (search (order t) t x st)\<lparr>timer := Some (fst (last ((t', x') # ps)) + dueTime,
                                              snd (last ((t', x') # ps)))\<rparr>"
    by (simp add: Cons.IH [OF rest] idle)
  finally show ?case
    by (simp add: search_def q)
qed

lemma separated_snoc:
  "separated (bs @ [b]) \<longleftrightarrow>
     separated bs \<and> (bs \<noteq> [] \<longrightarrow> fst (last (last bs)) + dueTime < fst (hd b))"
  by (induction bs rule: separated.induct) auto

lemma remdups_adj_snoc:
  "remdups_adj (xs @ [x]) = remdups_adj xs @ (if xs \<noteq> [] \<and> last xs = x then [] else [x])"
proof (cases xs rule: rev_cases)
  case Nil
  then show ?thesis by simp
next
  case (snoc ys y)
  then show ?thesis
    by (simp add: remdups_adj_append_two)
qed

lemma bursts_invariant:
  assumes idle: "timer st = None" and fresh: "prev st = None"
  shows "(\<forall>b\<in>set bs. burst b) \<Longrightarrow> separated bs \<Longrightarrow>
         (bs \<noteq> [] \<Longrightarrow> fst (last (last bs)) + dueTime < T) \<Longrightarrow>
         timer (advance f T (typing order (concat bs) st)) = None
         \<and> prev (advance f T (typing order (concat bs) st)) = (if bs = [] then None else Some (snd (last (last bs))))
         \<and> debounced (advance f T (typing order (concat bs) st)) = debounced st @ map (\<lambda>b. snd (last b)) bs
         \<and> queries (advance f T (typing order (concat bs) st)) = queries st @ remdups_adj (map (\<lambda>b. snd (last b)) bs)"
proof (induction bs arbitrary: T f rule: rev_induct)
  case Nil
  then show ?case
    by (simp add: typing_Nil advance_idle idle fresh)
next
  case (snoc b bs)
  from snoc.prems(1) have b: "burst b" and bs: "\<forall>c\<in>set bs. burst c"
    by simp_all
  from snoc.prems(2) have sep: "separated bs"
    and gap: "bs \<noteq> [] \<Longrightarrow> fst (last (last bs)) + dueTime < fst (hd b)"
    by (simp_all add: separated_snoc)
  from snoc.prems(3) have due: "fst (last b) + dueTime < T"
    by simp
  from b obtain t x ps where shape: "b = (t, x) # ps"
    by (cases b) auto
  define S where "S = advance (order t) t (typing order (concat bs) st)"
  have IH: "timer S = None"
    "prev S = (if bs = [] then None else Some (snd (last (last bs))))"
    "debounced S = debounced st @ map (\<lambda>b. snd (last b)) bs"
    "queries S = queries st @ remdups_adj (map (\<lambda>b. snd (last b)) bs)"
    using snoc.IH [OF bs sep, of t "order t"] gap shape by (simp_all add: S_def)
  define S' where "S' = S\<lparr>timer := Some (fst (last b) + dueTime, snd (last b))\<rparr>"
  have run: "typing order (concat (bs @ [b])) st = S'"
    using typing_burst [of t x ps order "typing order (concat bs) st"] b shape
    by (simp add: typing_append S'_def S_def)
  have fire: "advance f T S' =
      distinctUntilChanged_next (snd (last b)) (S'\<lparr>timer := None, debounced := debounced S' @ [snd (last b)]\<rparr>)"
    by (rule advance_due [OF _ due]) (simp add: S'_def)
  have last_map: "bs \<noteq> [] \<Longrightarrow> last (map (\<lambda>b. snd (last b)) bs) = snd (last (last bs))"
    by (simp add: last_map)
  show ?case
    unfolding run fire
    using IH last_map
    by (simp add: distinctUntilChanged_next_fields S'_def remdups_adj_snoc)
qed

text \<open>
  At a gap of exactly 300ms the two orders differ: with the timer first the held term is
  emitted, with the keystroke first it is replaced and lost.
\<close>

lemma gap_of_300ms_depends_on_order:
  "debounced (advance False 1000 (typing (\<lambda>t. True) [(0, lit ''a''), (300, lit ''ab'')] initial))
     = [lit ''a'', lit ''ab'']"
  "debounced (advance False 1000 (typing (\<lambda>t. False) [(0, lit ''a''), (300, lit ''ab'')] initial))
     = [lit ''ab'']"
  by (simp_all add: typing_def run_def search_def advance_def distinctUntilChanged_next_def
      switchMap_next_def searchHeroes_def trim_def pipe_def http_get_def Let_def eval_defs)

lemma response_stale:
  "timer st = None \<Longrightarrow> (\<And>x. active st \<noteq> Some (i, x)) \<Longrightarrow> response f t i r st = st"
  by (auto simp add: response_def advance_idle Let_def split: option.split)

lemma response_current:
  "timer st = None \<Longrightarrow> active st = Some (i, x) \<Longrightarrow> trim x \<noteq> [] \<Longrightarrow>
   emitted (response f t i r st) = emitted st @ [case r of Next hs \<Rightarrow> hs | Error e \<Rightarrow> []]
   \<and> active (response f t i r st) = None
   \<and> timer (response f t i r st) = None
   \<and> requests (response f t i r st) = requests st"
  by (simp add: response_def advance_idle Let_def searchHeroes_Async deliver_def
      log_def MessageService_add_def split: notification.split)

lemma response_advance:
  "timer (advance f t st) = None \<Longrightarrow> response f t i r st = response f t i r (advance f t st)"
  by (simp add: response_def advance_idle)

section \<open>The claims\<close>

text \<open>
  Claim C1. In the search pipeline, when query A has been issued, query B for a different
  term is issued before A's result is delivered, and A's result is delivered after B's, the
  output of the pipeline holds B's result only: A's result is never emitted.

  Both terms are non-blank, so each is a request in flight. The term \<open>a\<close> is typed at \<open>ta\<close> and
  has left the debounce stage, more than 300ms later, when \<open>b\<close> is typed at \<open>tb\<close>; request
  number \<open>length (requests st)\<close> is A's, the next one B's. After B's answer \<open>rb\<close> the pipeline
  has emitted B's result (the body, or the empty list of the fallback), and A's answer \<open>ra\<close>,
  whatever it is, changes nothing at all. This holds for every order \<open>fa\<close>, \<open>fb\<close>, \<open>f1\<close>,
  \<open>f2\<close> of timer and event at the same millisecond.
\<close>

theorem stale_result_discarded:
  assumes a: "\<exists>c\<in>set a. \<not> isWhiteSpace c" and b: "\<exists>c\<in>set b. \<not> isWhiteSpace c"
    and ab: "a \<noteq> b"
    and idle: "timer st = None" and fresh: "prev st \<noteq> Some a"
    and tb: "ta + dueTime < tb" and t1: "tb + dueTime < t1" and t2: "t1 \<le> t2"
  shows "requests (run [Keystroke fa ta a, Keystroke fb tb b] st)
        = requests st @ [GET (lit ''api/heroes/?name='' @ a)]
    \<and> requests (run [Keystroke fa ta a, Keystroke fb tb b,
                      Response f1 t1 (Suc (length (requests st))) rb] st)
        = requests st @ [GET (lit ''api/heroes/?name='' @ a), GET (lit ''api/heroes/?name='' @ b)]
    \<and> emitted (run [Keystroke fa ta a, Keystroke fb tb b,
                     Response f1 t1 (Suc (length (requests st))) rb] st)
        = emitted st @ [case rb of Next hs \<Rightarrow> hs | Error e \<Rightarrow> []]
    \<and> run [Keystroke fa ta a, Keystroke fb tb b, Response f1 t1 (Suc (length (requests st))) rb,
            Response f2 t2 (length (requests st)) ra] st
        = run [Keystroke fa ta a, Keystroke fb tb b,
               Response f1 t1 (Suc (length (requests st))) rb] st"
proof -
  from a b have ne: "trim a \<noteq> []" "trim b \<noteq> []"
    by (simp_all add: trim_Nil_iff)
  define s1 where "s1 = search fa ta a st"
  define s2 where "s2 = search fb tb b s1"
  define s3 where "s3 = advance f1 t1 s2"
  define s4 where "s4 = response f1 t1 (Suc (length (requests st))) rb s2"
  have s1: "s1 = st\<lparr>timer := Some (ta + dueTime, a)\<rparr>"
    by (simp add: s1_def search_idle idle)
  have s2: "s2 = st\<lparr>timer := Some (tb + dueTime, b), debounced := debounced st @ [a],
                    prev := Some a, active := Some (length (requests st), a),
                    queries := queries st @ [a],
                    requests := requests st @ [GET (heroesUrl @ lit ''/?name='' @ a)]\<rparr>"
    using tb fresh ne
    by (simp add: s2_def s1 search_def advance_def distinctUntilChanged_next_def switchMap_next_query)
  have s3: "s3 = st\<lparr>timer := None, debounced := debounced st @ [a, b],
                    prev := Some b, active := Some (Suc (length (requests st)), b),
                    queries := queries st @ [a, b],
                    requests := requests st @ [GET (heroesUrl @ lit ''/?name='' @ a),
                                               GET (heroesUrl @ lit ''/?name='' @ b)]\<rparr>"
    using t1 ab ne
    by (simp add: s3_def s2 advance_def distinctUntilChanged_next_def switchMap_next_query)
  have s4_s3: "s4 = response f1 t1 (Suc (length (requests st))) rb s3"
    unfolding s4_def s3_def
    by (rule response_advance) (simp add: s3 [unfolded s3_def])
  have s4: "emitted s4 = emitted st @ [case rb of Next hs \<Rightarrow> hs | Error e \<Rightarrow> []]"
    "active s4 = None" "timer s4 = None"
    "requests s4 = requests st @ [GET (heroesUrl @ lit ''/?name='' @ a),
                                  GET (heroesUrl @ lit ''/?name='' @ b)]"
    using response_current [of s3 "Suc (length (requests st))" b f1 t1 rb] ne
    by (simp_all add: s4_s3 s3)
  have s5: "response f2 t2 (length (requests st)) ra s4 = s4"
    by (rule response_stale) (simp_all add: s4)
  have r2: "run [Keystroke fa ta a, Keystroke fb tb b] st = s2"
    by (simp add: run_def s1_def s2_def)
  have r3: "run [Keystroke fa ta a, Keystroke fb tb b,
                 Response f1 t1 (Suc (length (requests st))) rb] st = s4"
    by (simp add: run_def s1_def s2_def s4_def)
  have r4: "run [Keystroke fa ta a, Keystroke fb tb b, Response f1 t1 (Suc (length (requests st))) rb,
                 Response f2 t2 (length (requests st)) ra] st = s4"
    using s5 by (simp add: run_def s1_def s2_def s4_def)
  have url: "heroesUrl @ lit ''/?name='' @ x = lit ''api/heroes/?name='' @ x" for x
    by (simp add: heroesUrl_def lit_def)
  show ?thesis
    unfolding r2 r3 r4 by (simp add: s4 s2 url)
qed

text \<open>
  The same at a concrete input, with the keystroke first at every millisecond: \<^verbatim>\<open>a\<close> at 0,
  \<^verbatim>\<open>ab\<close> at 400, the answer for \<^verbatim>\<open>ab\<close> at 800 and the answer for \<^verbatim>\<open>a\<close> at 900.
\<close>

theorem stale_result_discarded_witness:
  "(\<exists>c\<in>set (lit ''a''). \<not> isWhiteSpace c) \<and> (\<exists>c\<in>set (lit ''ab''). \<not> isWhiteSpace c)
   \<and> lit ''a'' \<noteq> lit ''ab'' \<and> timer initial = None \<and> prev initial \<noteq> Some (lit ''a'')
   \<and> 0 + dueTime < 400 \<and> 400 + dueTime < 800 \<and> (800::nat) \<le> 900
   \<and> requests (run [Keystroke False 0 (lit ''a''), Keystroke False 400 (lit ''ab'')] initial)
       = [GET (lit ''api/heroes/?name=a'')]
   \<and> emitted (run [Keystroke False 0 (lit ''a''), Keystroke False 400 (lit ''ab''),
                    Response False 800 (Suc 0) (Next [Object \<lparr>addr = 1, hero_id = 12, name = lit ''abe''\<rparr>]),
                    Response False 900 0 (Next [Object \<lparr>addr = 2, hero_id = 13, name = lit ''ann''\<rparr>])] initial)
       = [[Object \<lparr>addr = 1, hero_id = 12, name = lit ''abe''\<rparr>]]"
proof -
  have h: "\<exists>c\<in>set (lit ''a''). \<not> isWhiteSpace c" "\<exists>c\<in>set (lit ''ab''). \<not> isWhiteSpace c"
    "lit ''a'' \<noteq> lit ''ab''" "timer initial = None" "prev initial \<noteq> Some (lit ''a'')"
    "0 + dueTime < 400" "400 + dueTime < 800" "(800::nat) \<le> 900"
    by (simp_all add: eval_defs)
  from stale_result_discarded [OF h,
      of False False False "Next [Object \<lparr>addr = 1, hero_id = 12, name = lit ''abe''\<rparr>]"
         False "Next [Object \<lparr>addr = 2, hero_id = 13, name = lit ''ann''\<rparr>]"]
  have "requests (run [Keystroke False 0 (lit ''a''), Keystroke False 400 (lit ''ab'')] initial)
       = [GET (lit ''api/heroes/?name=a'')]"
    and "emitted (run [Keystroke False 0 (lit ''a''), Keystroke False 400 (lit ''ab''),
                    Response False 800 (Suc 0) (Next [Object \<lparr>addr = 1, hero_id = 12, name = lit ''abe''\<rparr>]),
                    Response False 900 0 (Next [Object \<lparr>addr = 2, hero_id = 13, name = lit ''ann''\<rparr>])] initial)
       = [[Object \<lparr>addr = 1, hero_id = 12, name = lit ''abe''\<rparr>]]"
    by (simp_all add: initial_def lit_def)
  with h show ?thesis
    by simp
qed

text \<open>
  Claim C2, amended. For a sequence of terms typed into a fresh pipeline in bursts (inside a
  burst every keystroke comes less than 300ms after the one before; bursts are more than
  300ms apart), exactly the last term of each burst leaves the debounce stage, 300ms after
  it was typed; the earlier terms of a burst are dropped. The last term of a burst produces
  a query unless it equals the last term of the burst before, which
  \<^verbatim>\<open>distinctUntilChanged\<close> drops: the queries are the last terms, in order, without
  immediate repetitions. The state is looked at at a time \<open>T\<close> more than 300ms after the last
  keystroke; the order of timer and event at the same millisecond (\<open>order\<close>, \<open>f\<close>) is any.
\<close>

theorem debounce_keeps_last_of_burst:
  assumes "\<forall>b\<in>set bs. burst b" and "separated bs" and "bs \<noteq> []"
    and "fst (last (last bs)) + dueTime < T"
    and "timer st = None" and "prev st = None"
  shows "debounced (advance f T (typing order (concat bs) st))
         = debounced st @ map (\<lambda>b. snd (last b)) bs
       \<and> queries (advance f T (typing order (concat bs) st))
         = queries st @ remdups_adj (map (\<lambda>b. snd (last b)) bs)"
  using bursts_invariant [OF assms(5,6) assms(1,2), of T f order] assms(4) by simp

text \<open>
  The same at a concrete input, with the keystroke first at every millisecond: a burst
  \<^verbatim>\<open>a\<close>, \<^verbatim>\<open>ab\<close> and, 500ms after it, the burst \<^verbatim>\<open>abc\<close>.
\<close>

theorem debounce_keeps_last_of_burst_witness:
  "burst [(0, lit ''a''), (100, lit ''ab'')] \<and> burst [(600, lit ''abc'')]
   \<and> separated [[(0, lit ''a''), (100, lit ''ab'')], [(600, lit ''abc'')]]
   \<and> 600 + dueTime < 1000 \<and> timer initial = None \<and> prev initial = None
   \<and> debounced (advance False 1000
        (typing (\<lambda>t. False) [(0, lit ''a''), (100, lit ''ab''), (600, lit ''abc'')] initial))
        = [lit ''ab'', lit ''abc'']
   \<and> queries (advance False 1000
        (typing (\<lambda>t. False) [(0, lit ''a''), (100, lit ''ab''), (600, lit ''abc'')] initial))
        = [lit ''ab'', lit ''abc'']"
proof -
  have h: "\<forall>b\<in>set [[(0, lit ''a''), (100, lit ''ab'')], [(600, lit ''abc'')]]. burst b"
    "separated [[(0, lit ''a''), (100, lit ''ab'')], [(600, lit ''abc'')]]"
    "[[(0::nat, lit ''a''), (100, lit ''ab'')], [(600, lit ''abc'')]] \<noteq> []"
    "fst (last (last [[(0::nat, lit ''a''), (100, lit ''ab'')], [(600, lit ''abc'')]])) + dueTime < 1000"
    "timer initial = None" "prev initial = None"
    by (simp_all add: eval_defs)
  from debounce_keeps_last_of_burst [OF h, of False "\<lambda>t. False"] h show ?thesis
    by (simp add: eval_defs)
qed

text \<open>
  "The last term of each burst produces a query" fails: \<^verbatim>\<open>a\<close> is typed and searched; later
  \<^verbatim>\<open>ab\<close> and, 100ms after it, \<^verbatim>\<open>a\<close> again. The last term of this second burst leaves the
  debounce stage and \<^verbatim>\<open>distinctUntilChanged\<close> drops it: one query in all. No timer is due
  at the millisecond of an event here.
\<close>

theorem last_of_burst_without_query:
  "debounced (advance False 2000
      (typing (\<lambda>t. False) [(0, lit ''a''), (1000, lit ''ab''), (1100, lit ''a'')] initial))
     = [lit ''a'', lit ''a'']
   \<and> queries (advance False 2000
      (typing (\<lambda>t. False) [(0, lit ''a''), (1000, lit ''ab''), (1100, lit ''a'')] initial))
     = [lit ''a'']"
  by (simp add: typing_def run_def search_def advance_def distinctUntilChanged_next_def
      switchMap_next_def searchHeroes_def trim_def pipe_def http_get_def Let_def eval_defs)

text \<open>
  Claim C3. On a transport failure \<open>e\<close> of \<^verbatim>\<open>getHeroes\<close>, \<^verbatim>\<open>getHero\<close> or
  \<^verbatim>\<open>searchHeroes\<close> (with a term that is sent), the subscriber's value callback runs with the
  fallback (the empty list, \<^verbatim>\<open>undefined\<close>), in a state where the error has been written to
  the console once and exactly one message, tagged with the name of the operation, has been
  added to the collector; the error reaches no one as an error.
\<close>

theorem transport_failure_fallback:
  "settled (subscribe getHeroes observer st0) (Error e) st =
     observer [] (st\<lparr>console := console st @ [e],
                      messages := messages st @ [lit ''HeroService: getHeroes failed: '' @ message e]\<rparr>)
   \<and> settled (subscribe (getHero i) observer' st0) (Error e) st =
     observer' Undefined (st\<lparr>console := console st @ [e],
       messages := messages st @ [lit ''HeroService: getHero id='' @ numberToString i @ lit '' failed: '' @ message e]\<rparr>)
   \<and> ((\<exists>c\<in>set term. \<not> isWhiteSpace c) \<longrightarrow>
      settled (subscribe (searchHeroes term) observer st0) (Error e) st =
      observer [] (st\<lparr>console := console st @ [e],
                      messages := messages st @ [lit ''HeroService: searchHeroes failed: '' @ message e]\<rparr>))"
proof (intro conjI impI)
  show "settled (subscribe getHeroes observer st0) (Error e) st =
     observer [] (st\<lparr>console := console st @ [e],
                      messages := messages st @ [lit ''HeroService: getHeroes failed: '' @ message e]\<rparr>)"
    by (simp add: getHeroes_Async sub_defs log_def MessageService_add_def lit_def)
  show "settled (subscribe (getHero i) observer' st0) (Error e) st =
     observer' Undefined (st\<lparr>console := console st @ [e],
       messages := messages st @ [lit ''HeroService: getHero id='' @ numberToString i @ lit '' failed: '' @ message e]\<rparr>)"
    by (simp add: getHero_Async sub_defs log_def MessageService_add_def lit_def)
  assume "\<exists>c\<in>set term. \<not> isWhiteSpace c"
  then have "trim term \<noteq> []"
    by (simp add: trim_Nil_iff)
  then show "settled (subscribe (searchHeroes term) observer st0) (Error e) st =
      observer [] (st\<lparr>console := console st @ [e],
                      messages := messages st @ [lit ''HeroService: searchHeroes failed: '' @ message e]\<rparr>)"
    by (simp add: searchHeroes_Async sub_defs log_def MessageService_add_def lit_def)
qed

text \<open>The same at a concrete input.\<close>

theorem transport_failure_fallback_witness:
  "(\<exists>c\<in>set (lit ''ab''). \<not> isWhiteSpace c)
   \<and> settled (subscribe (searchHeroes (lit ''ab'')) (\<lambda>hs st. st\<lparr>heroes := hs\<rparr>) initial)
        (Error \<lparr>message = lit ''offline''\<rparr>) initial
     = initial\<lparr>console := [\<lparr>message = lit ''offline''\<rparr>],
               messages := [lit ''HeroService: searchHeroes failed: offline'']\<rparr>"
  using transport_failure_fallback [of "\<lambda>hs st. st\<lparr>heroes := hs\<rparr>" initial "\<lparr>message = lit ''offline''\<rparr>"
      initial 0 "\<lambda>h st. st" "lit ''ab''"]
  by (simp add: eval_defs)

text \<open>
  Claim C4. For a term that is empty or all whitespace, \<^verbatim>\<open>searchHeroes\<close> sends no request
  and delivers the empty list during \<^verbatim>\<open>subscribe\<close>. For every other term it sends one GET to
  the filtered endpoint and delivers the matches, or the empty list after a transport
  failure.
\<close>

theorem search_blank_or_query:
  "((\<forall>c\<in>set term. isWhiteSpace c) \<longrightarrow>
      subscribe (searchHeroes term) observer st = Finished (observer [] st))
   \<and> ((\<exists>c\<in>set term. \<not> isWhiteSpace c) \<longrightarrow>
      returned (subscribe (searchHeroes term) observer st) =
        st\<lparr>requests := requests st @ [GET (lit ''api/heroes/?name='' @ term)]\<rparr>
      \<and> settled (subscribe (searchHeroes term) observer st) (Next hs) st' =
        observer hs (st'\<lparr>messages := messages st' @
           [lit (if hs \<noteq> [] then ''HeroService: found heroes matching \"'' else ''HeroService: no heroes matching \"'')
              @ term @ lit ''\"'']\<rparr>)
      \<and> settled (subscribe (searchHeroes term) observer st) (Error e) st' =
        observer [] (st'\<lparr>console := console st' @ [e],
           messages := messages st' @ [lit ''HeroService: searchHeroes failed: '' @ message e]\<rparr>))"
proof (intro conjI impI)
  assume "\<forall>c\<in>set term. isWhiteSpace c"
  then have "trim term = []"
    by (simp add: trim_Nil_iff)
  then show "subscribe (searchHeroes term) observer st = Finished (observer [] st)"
    by (simp add: searchHeroes_blank sub_defs)
next
  assume "\<exists>c\<in>set term. \<not> isWhiteSpace c"
  then have ne: "trim term \<noteq> []"
    by (simp add: trim_Nil_iff)
  show "returned (subscribe (searchHeroes term) observer st) =
        st\<lparr>requests := requests st @ [GET (lit ''api/heroes/?name='' @ term)]\<rparr>"
    using ne by (simp add: searchHeroes_Async sub_defs heroesUrl_def lit_def)
  show "settled (subscribe (searchHeroes term) observer st) (Next hs) st' =
        observer hs (st'\<lparr>messages := messages st' @
           [lit (if hs \<noteq> [] then ''HeroService: found heroes matching \"'' else ''HeroService: no heroes matching \"'')
              @ term @ lit ''\"'']\<rparr>)"
    using ne by (simp add: searchHeroes_Async sub_defs log_def MessageService_add_def lit_def)
  show "settled (subscribe (searchHeroes term) observer st) (Error e) st' =
        observer [] (st'\<lparr>console := console st' @ [e],
           messages := messages st' @ [lit ''HeroService: searchHeroes failed: '' @ message e]\<rparr>)"
    using ne by (simp add: searchHeroes_Async sub_defs log_def MessageService_add_def lit_def)
qed

text \<open>The same at a concrete input.\<close>

theorem search_blank_or_query_witness:
  "trim (lit ''   '') = []
   \<and> subscribe (searchHeroes (lit ''   '')) (\<lambda>hs st. st\<lparr>heroes := hs\<rparr>) initial = Finished initial
   \<and> (\<exists>c\<in>set (lit ''ab''). \<not> isWhiteSpace c)
   \<and> returned (subscribe (searchHeroes (lit ''ab'')) (\<lambda>hs st. st\<lparr>heroes := hs\<rparr>) initial)
     = initial\<lparr>requests := [GET (lit ''api/heroes/?name=ab'')]\<rparr>"
  using search_blank_or_query [of "lit ''   ''" "\<lambda>hs st. st\<lparr>heroes := hs\<rparr>" initial]
    search_blank_or_query [of "lit ''ab''" "\<lambda>hs st. st\<lparr>heroes := hs\<rparr>" initial]
  by (simp add: eval_defs trim_def)

text \<open>
  Claim C5, amended. \<^verbatim>\<open>delete(record)\<close> removes from the local list the elements that are
  reference-equal to the record, and no other: the list is shorter by the number of
  occurrences of the record (by one when it occurs once, by none when it does not occur), and
  every other element, also one with the same id and fields, occurs as often as before.
\<close>

theorem delete_removes_identical:
  "length (heroes (returned (HeroesComponent_delete (Object r) st))) + count_list (heroes st) (Object r)
     = length (heroes st)
   \<and> (x \<noteq> Object r \<longrightarrow>
        count_list (heroes (returned (HeroesComponent_delete (Object r) st))) x = count_list (heroes st) x)"
  by (simp add: heroes_delete length_filter_neq count_list_filter_neq)

text \<open>The same at a concrete input.\<close>

theorem delete_removes_identical_witness:
  "Object \<lparr>addr = 2, hero_id = 11, name = lit ''Dr Nice''\<rparr> \<noteq> Object \<lparr>addr = 1, hero_id = 11, name = lit ''Dr Nice''\<rparr>
   \<and> count_list (heroes (returned (HeroesComponent_delete
        (Object \<lparr>addr = 1, hero_id = 11, name = lit ''Dr Nice''\<rparr>)
        (initial\<lparr>heroes := [Object \<lparr>addr = 1, hero_id = 11, name = lit ''Dr Nice''\<rparr>,
                             Object \<lparr>addr = 2, hero_id = 11, name = lit ''Dr Nice''\<rparr>]\<rparr>))))
        (Object \<lparr>addr = 2, hero_id = 11, name = lit ''Dr Nice''\<rparr>) = 1
   \<and> length (heroes (returned (HeroesComponent_delete
        (Object \<lparr>addr = 1, hero_id = 11, name = lit ''Dr Nice''\<rparr>)
        (initial\<lparr>heroes := [Object \<lparr>addr = 1, hero_id = 11, name = lit ''Dr Nice''\<rparr>,
                             Object \<lparr>addr = 2, hero_id = 11, name = lit ''Dr Nice''\<rparr>]\<rparr>)))) = 1"
  using delete_removes_identical [of "\<lparr>addr = 1, hero_id = 11, name = lit ''Dr Nice''\<rparr>"
      "initial\<lparr>heroes := [Object \<lparr>addr = 1, hero_id = 11, name = lit ''Dr Nice''\<rparr>,
                           Object \<lparr>addr = 2, hero_id = 11, name = lit ''Dr Nice''\<rparr>]\<rparr>"
      "Object \<lparr>addr = 2, hero_id = 11, name = lit ''Dr Nice''\<rparr>"]
  by (simp add: initial_def)

text \<open>
  "Exactly one element for every state and every record" fails: deleting a record that is
  not in the list removes no element, although a record with the same id is there; and
  where the array holds the same object twice, both elements go.
\<close>

theorem delete_absent_removes_nothing:
  "heroes (returned (HeroesComponent_delete
      (Object \<lparr>addr = 1, hero_id = 11, name = lit ''Dr Nice''\<rparr>)
      (initial\<lparr>heroes := [Object \<lparr>addr = 2, hero_id = 11, name = lit ''Dr Nice''\<rparr>]\<rparr>)))
   = [Object \<lparr>addr = 2, hero_id = 11, name = lit ''Dr Nice''\<rparr>]
   \<and> heroes (returned (HeroesComponent_delete
      (Object \<lparr>addr = 1, hero_id = 11, name = lit ''Dr Nice''\<rparr>)
      (initial\<lparr>heroes := [Object \<lparr>addr = 1, hero_id = 11, name = lit ''Dr Nice''\<rparr>,
                           Object \<lparr>addr = 1, hero_id = 11, name = lit ''Dr Nice''\<rparr>]\<rparr>)))
   = []"
  by (simp add: heroes_delete initial_def)

text \<open>
  Claim C6. \<^verbatim>\<open>add(name)\<close> of the list view trims the name. A blank name sends nothing and
  changes nothing. Otherwise one POST with the trimmed name is sent, and when the server
  answers with the new hero, exactly that hero is appended to the local list.
\<close>

theorem add_trims_posts_appends:
  "((\<forall>c\<in>set name0. isWhiteSpace c) \<longrightarrow> HeroesComponent_add name0 st = Finished st)
   \<and> ((\<exists>c\<in>set name0. \<not> isWhiteSpace c) \<longrightarrow>
      returned (HeroesComponent_add name0 st) =
        st\<lparr>requests := requests st @ [POST (lit ''api/heroes'') (NameOnly (trim name0)) httpOptions]\<rparr>
      \<and> heroes (settled (HeroesComponent_add name0 st) (Next (Object h)) st') = heroes st' @ [Object h])"
proof (intro conjI impI)
  assume "\<forall>c\<in>set name0. isWhiteSpace c"
  then have "trim name0 = []"
    by (simp add: trim_Nil_iff)
  then show "HeroesComponent_add name0 st = Finished st"
    by (simp add: HeroesComponent_add_def)
next
  assume "\<exists>c\<in>set name0. \<not> isWhiteSpace c"
  then have ne: "trim name0 \<noteq> []"
    by (simp add: trim_Nil_iff)
  show "returned (HeroesComponent_add name0 st) =
        st\<lparr>requests := requests st @ [POST (lit ''api/heroes'') (NameOnly (trim name0)) httpOptions]\<rparr>"
    using ne by (simp add: HeroesComponent_add_def addHero_Async sub_defs heroesUrl_def)
  show "heroes (settled (HeroesComponent_add name0 st) (Next (Object h)) st') = heroes st' @ [Object h]"
    using ne by (simp add: HeroesComponent_add_def addHero_Async sub_defs log_def MessageService_add_def)
qed

text \<open>The same at a concrete input.\<close>

theorem add_trims_posts_appends_witness:
  "trim (lit ''   '') = []
   \<and> HeroesComponent_add (lit ''   '') initial = Finished initial
   \<and> (\<exists>c\<in>set (lit ''  Wolverine  ''). \<not> isWhiteSpace c)
   \<and> returned (HeroesComponent_add (lit ''  Wolverine  '') initial)
     = initial\<lparr>requests := [POST (lit ''api/heroes'') (NameOnly (lit ''Wolverine'')) httpOptions]\<rparr>
   \<and> heroes (settled (HeroesComponent_add (lit ''  Wolverine  '') initial)
        (Next (Object \<lparr>addr = 1, hero_id = 21, name = lit ''Wolverine''\<rparr>)) initial)
     = [Object \<lparr>addr = 1, hero_id = 21, name = lit ''Wolverine''\<rparr>]"
  using add_trims_posts_appends [of "lit ''   ''" initial]
    add_trims_posts_appends [of "lit ''  Wolverine  ''" initial
      "\<lparr>addr = 1, hero_id = 21, name = lit ''Wolverine''\<rparr>" initial]
  by (simp add: eval_defs trim_def)

text \<open>
  Claim C7. With a hero loaded, \<^verbatim>\<open>save()\<close> sends the update and navigates back exactly
  once when the call settles: after a successful answer, and also after a transport failure,
  which \<^verbatim>\<open>handleError\<close> turns into a value.
\<close>

theorem save_navigates_back_on_settle:
  "hero st = Object h \<Longrightarrow>
     returned (save st) =
       st\<lparr>requests := requests st @ [PUT (lit ''api/heroes'') (WholeHero (hero_id h) (name h)) httpOptions]\<rparr>
     \<and> settled (save st) (Next v) st' =
       st'\<lparr>messages := messages st' @ [lit ''HeroService: updated hero id='' @ numberToString (hero_id h)],
           backs := Suc (backs st')\<rparr>
     \<and> settled (save st) (Error e) st' =
       st'\<lparr>console := console st' @ [e],
           messages := messages st' @ [lit ''HeroService: updateHero failed: '' @ message e],
           backs := Suc (backs st')\<rparr>"
  by (simp add: save_def updateHero_Async sub_defs goBack_def log_def MessageService_add_def
      heroesUrl_def lit_def)

text \<open>The same at a concrete input.\<close>

theorem save_navigates_back_on_settle_witness:
  "hero (initial\<lparr>hero := Object \<lparr>addr = 1, hero_id = 11, name = lit ''Dr Nice''\<rparr>\<rparr>)
     = Object \<lparr>addr = 1, hero_id = 11, name = lit ''Dr Nice''\<rparr>
   \<and> backs (settled (save (initial\<lparr>hero := Object \<lparr>addr = 1, hero_id = 11, name = lit ''Dr Nice''\<rparr>\<rparr>))
        (Error \<lparr>message = lit ''offline''\<rparr>) initial) = 1"
  using save_navigates_back_on_settle [of "initial\<lparr>hero := Object \<lparr>addr = 1, hero_id = 11, name = lit ''Dr Nice''\<rparr>\<rparr>"
      "\<lparr>addr = 1, hero_id = 11, name = lit ''Dr Nice''\<rparr>" Undefined initial "\<lparr>message = lit ''offline''\<rparr>"]
  by (simp add: initial_def)

text \<open>
  Claim C8. Whatever the transport answers, every message an operation of the data-access
  service adds to the message collector starts with \<^verbatim>\<open>HeroService: \<close>.
\<close>

theorem every_message_tagged:
  "tagged_since st (snd (outcome getHeroes rl st))
   \<and> tagged_since st (snd (outcome (getHeroNo404 i) rl st))
   \<and> tagged_since st (snd (outcome (getHero i) rv st))
   \<and> tagged_since st (snd (outcome (searchHeroes term) rl st))
   \<and> tagged_since st (snd (outcome (addHero body) rv st))
   \<and> tagged_since st (snd (outcome (deleteHero i) rv st))
   \<and> tagged_since st (snd (outcome (updateHero h) rv st))"
proof (intro conjI)
  show "tagged_since st (snd (outcome getHeroes rl st))"
    by (simp add: getHeroes_Async tagged_since_log split: notification.split)
  show "tagged_since st (snd (outcome (getHeroNo404 i) rl st))"
    by (simp add: getHeroNo404_Async tagged_since_log split: notification.split list.split val.split)
  show "tagged_since st (snd (outcome (getHero i) rv st))"
    by (simp add: getHero_Async tagged_since_log split: notification.split)
  show "tagged_since st (snd (outcome (searchHeroes term) rl st))"
    by (rule searchHeroes_tagged)
  show "tagged_since st (snd (outcome (addHero body) rv st))"
    by (simp add: addHero_Async tagged_since_log split: notification.split val.split)
  show "tagged_since st (snd (outcome (deleteHero i) rv st))"
    by (simp add: deleteHero_Async tagged_since_log split: notification.split)
  show "tagged_since st (snd (outcome (updateHero h) rv st))"
    by (simp add: updateHero_Async tagged_since_log split: notification.split)
qed

text \<open>The same at a concrete input.\<close>

theorem every_message_tagged_witness:
  "messages (snd (outcome getHeroes (Error \<lparr>message = lit ''offline''\<rparr>) initial))
     = [lit ''HeroService: getHeroes failed: offline'']
   \<and> tagged_since initial (snd (outcome getHeroes (Error \<lparr>message = lit ''offline''\<rparr>) initial))"
  using every_message_tagged [of initial "Error \<lparr>message = lit ''offline''\<rparr>"]
  by (simp add: getHeroes_Async log_def MessageService_add_def eval_defs)

text \<open>
  Claim C9. Every operation that sends a request adds exactly one message to the collector
  for the answer it delivers, a success or a failure; the messages of success are
  \<^verbatim>\<open>fetched heroes\<close>, \<^verbatim>\<open>found heroes matching "term"\<close>, \<^verbatim>\<open>no heroes matching "term"\<close>. The
  shortcut of \<^verbatim>\<open>searchHeroes\<close> for a blank term changes nothing.
\<close>

theorem one_message_per_result:
  "length (messages (snd (outcome getHeroes rl st))) = Suc (length (messages st))
   \<and> length (messages (snd (outcome (getHeroNo404 i) rl st))) = Suc (length (messages st))
   \<and> length (messages (snd (outcome (getHero i) rv st))) = Suc (length (messages st))
   \<and> ((\<exists>c\<in>set term. \<not> isWhiteSpace c) \<longrightarrow>
        length (messages (snd (outcome (searchHeroes term) rl st))) = Suc (length (messages st)))
   \<and> length (messages (snd (outcome (addHero body) rv st))) = Suc (length (messages st))
   \<and> length (messages (snd (outcome (deleteHero i) rv st))) = Suc (length (messages st))
   \<and> length (messages (snd (outcome (updateHero h) rv st))) = Suc (length (messages st))
   \<and> messages (snd (outcome getHeroes (Next hs) st)) = messages st @ [lit ''HeroService: fetched heroes'']
   \<and> ((\<exists>c\<in>set term. \<not> isWhiteSpace c) \<longrightarrow>
        messages (snd (outcome (searchHeroes term) (Next hs) st)) =
          messages st @ [lit (if hs \<noteq> [] then ''HeroService: found heroes matching \"''
                              else ''HeroService: no heroes matching \"'') @ term @ lit ''\"''])
   \<and> ((\<forall>c\<in>set term. isWhiteSpace c) \<longrightarrow>
        snd (outcome (searchHeroes term) rl st) = st)"
proof (intro conjI impI)
  show "length (messages (snd (outcome getHeroes rl st))) = Suc (length (messages st))"
    by (simp add: getHeroes_Async length_messages_log split: notification.split)
  show "length (messages (snd (outcome (getHeroNo404 i) rl st))) = Suc (length (messages st))"
    by (simp add: getHeroNo404_Async length_messages_log split: notification.split list.split val.split)
  show "length (messages (snd (outcome (getHero i) rv st))) = Suc (length (messages st))"
    by (simp add: getHero_Async length_messages_log split: notification.split)
  show "length (messages (snd (outcome (addHero body) rv st))) = Suc (length (messages st))"
    by (simp add: addHero_Async length_messages_log split: notification.split val.split)
  show "length (messages (snd (outcome (deleteHero i) rv st))) = Suc (length (messages st))"
    by (simp add: deleteHero_Async length_messages_log split: notification.split)
  show "length (messages (snd (outcome (updateHero h) rv st))) = Suc (length (messages st))"
    by (simp add: updateHero_Async length_messages_log split: notification.split)
  show "messages (snd (outcome getHeroes (Next hs) st)) = messages st @ [lit ''HeroService: fetched heroes'']"
    by (simp add: getHeroes_Async log_def MessageService_add_def lit_def)
next
  assume "\<exists>c\<in>set term. \<not> isWhiteSpace c"
  then have "trim term \<noteq> []"
    by (simp add: trim_Nil_iff)
  then show "length (messages (snd (outcome (searchHeroes term) rl st))) = Suc (length (messages st))"
    by (simp add: searchHeroes_Async length_messages_log split: notification.split)
next
  assume "\<exists>c\<in>set term. \<not> isWhiteSpace c"
  then have "trim term \<noteq> []"
    by (simp add: trim_Nil_iff)
  then show "messages (snd (outcome (searchHeroes term) (Next hs) st)) =
          messages st @ [lit (if hs \<noteq> [] then ''HeroService: found heroes matching \"''
                              else ''HeroService: no heroes matching \"'') @ term @ lit ''\"'']"
    by (simp add: searchHeroes_Async log_def MessageService_add_def lit_def)
next
  assume "\<forall>c\<in>set term. isWhiteSpace c"
  then have "trim term = []"
    by (simp add: trim_Nil_iff)
  then show "snd (outcome (searchHeroes term) rl st) = st"
    by (simp add: searchHeroes_blank)
qed

text \<open>The same at a concrete input.\<close>

theorem one_message_per_result_witness:
  "(\<exists>c\<in>set (lit ''ab''). \<not> isWhiteSpace c)
   \<and> messages (snd (outcome (searchHeroes (lit ''ab'')) (Next []) initial))
      = [lit ''HeroService: no heroes matching \"ab\"'']
   \<and> trim (lit '' '') = []
   \<and> snd (outcome (searchHeroes (lit '' '')) (Next []) initial) = initial"
  using one_message_per_result [of "Next []" initial _ _ "lit ''ab''" _ _ "[]"]
    one_message_per_result [of "Next []" initial _ _ "lit '' ''" _ _ "[]"]
  by (simp add: eval_defs trim_def)

text \<open>
  Claim C10. \<^verbatim>\<open>delete(r)\<close> of the list view keeps the elements of the local list that
  are not reference-equal to \<open>r\<close>, in their order, and sends exactly one DELETE for the id of
  \<open>r\<close>, whether \<open>r\<close> is in the list or not. The answer of the transport changes neither
  the list nor the requests sent.
\<close>

theorem delete_frame:
  "returned (HeroesComponent_delete (Object r) st) =
     st\<lparr>heroes := filter (\<lambda>x. x \<noteq> Object r) (heroes st),
        requests := requests st @
          [DELETE (lit ''api/heroes/'' @ numberToString (hero_id r)) httpOptions]\<rparr>
   \<and> heroes (settled (HeroesComponent_delete (Object r) st) a st') = heroes st'
   \<and> requests (settled (HeroesComponent_delete (Object r) st) a st') = requests st'"
  by (simp add: HeroesComponent_delete_def deleteHero_Async sub_defs heroesUrl_def lit_def
      log_def MessageService_add_def Let_def split: notification.split)

text \<open>The same at a concrete input.\<close>

theorem delete_frame_witness:
  "returned (HeroesComponent_delete (Object \<lparr>addr = 1, hero_id = 11, name = lit ''Dr Nice''\<rparr>) initial)
     = initial\<lparr>requests := [DELETE (lit ''api/heroes/11'') httpOptions]\<rparr>"
  using delete_frame [of "\<lparr>addr = 1, hero_id = 11, name = lit ''Dr Nice''\<rparr>" initial]
  by (simp add: eval_defs numberToString_def digits.simps)

end
